theory Spec2Isabelle
  imports Main "HOL-Library.Sublist" "HOL-Library.Multiset"
begin

section \<open>Strings\<close>

text \<open>
  A Python \<open>str\<close> is a sequence of Unicode code points: \<open>len\<close> counts code points and
  slicing cuts between them. The model keeps that: a string is the list of its code points.
  A literal of the source is written with \<open>ascii\<close> for its ASCII part and with the code
  points themselves (in hexadecimal) elsewhere.
\<close>

type_synonym pystr = "nat list"

definition ascii :: "string \<Rightarrow> pystr" where
  "ascii s = map of_char s"

text \<open>\<open>k in s\<close>: the substring test of Python.\<close>

fun str_contains :: "pystr \<Rightarrow> pystr \<Rightarrow> bool" where
  "str_contains k [] = (k = [])"
| "str_contains k (x # xs) = (prefix k (x # xs) \<or> str_contains k xs)"

text \<open>
  \<open>str.lower\<close> and \<open>str.upper\<close> are Python's Unicode case mappings, library code outside
  the repository. Every function that calls one of them takes it as an argument (\<open>lower\<close>,
  \<open>upper\<close>, of type \<open>pystr \<Rightarrow> pystr\<close>), so that a theorem holds whatever these mappings
  are. On ASCII text they are the following two functions, which the concrete evaluations use.
\<close>

definition ascii_lower :: "pystr \<Rightarrow> pystr" where
  "ascii_lower s = map (\<lambda>c. if 65 \<le> c \<and> c \<le> 90 then c + 32 else c) s"

definition ascii_upper :: "pystr \<Rightarrow> pystr" where
  "ascii_upper s = map (\<lambda>c. if 97 \<le> c \<and> c \<le> 122 then c - 32 else c) s"

section \<open>types.py and constants.py\<close>

record CommitInfo =
  hash :: pystr
  author :: pystr
  email :: pystr
  date :: pystr
  message :: pystr

text \<open>
  The category keys of the source are the eight strings \<open>'new_features'\<close>, ..., \<open>'others'\<close>;
  the dictionary built by \<open>classify_commits\<close> has exactly these keys. They are modelled as an
  enumeration, in the order of \<open>CATEGORY_DISPLAY\<close>.
\<close>

datatype category =
  new_features | bug_fixes | performance | refactoring
  | styling | configuration | documentation | others

definition DEFAULT_MAX_DIFF_CHARS :: nat where
  "DEFAULT_MAX_DIFF_CHARS = 50000"

text \<open>\<open>COMMIT_KEYWORDS\<close>, in the order in which the dictionary literal lists its keys
  (the order in which \<open>.items()\<close> yields them).\<close>

definition COMMIT_KEYWORDS :: "(category \<times> pystr list) list" where
  "COMMIT_KEYWORDS =
    [(new_features, [ [0x65B0, 0x589E], [0x6DFB, 0x52A0], ascii ''add'', ascii ''feat'',
        ascii ''feature'', [0x529F, 0x80FD], ascii ''new'', ascii ''implement'', [0x652F, 0x6301]]),
     (bug_fixes, [ [0x4FEE, 0x590D], [0x4FEE, 0x6B63], ascii ''fix'', ascii ''bug'',
        [0x95EE, 0x9898], ascii ''issue'', [0x9519, 0x8BEF], ascii ''resolve'', ascii ''hotfix'']),
     (performance, [ [0x4F18, 0x5316], [0x6027, 0x80FD], ascii ''perf'', ascii ''performance'',
        [0x63D0, 0x5347], [0x6539, 0x8FDB], ascii ''improve'', ascii ''optimize'', [0x52A0, 0x901F]]),
     (refactoring, [ [0x91CD, 0x6784], ascii ''refactor'', [0x8C03, 0x6574], [0x91CD, 0x5199],
        ascii ''rewrite'', ascii ''restructure'', [0x6539, 0x9020]]),
     (documentation, [ [0x6587, 0x6863], ascii ''doc'', ascii ''documentation'', [0x6CE8, 0x91CA],
        ascii ''comment'', ascii ''readme'', ascii ''changelog'']),
     (styling, [ [0x6837, 0x5F0F], ascii ''style'', ascii ''css'', ascii ''ui'', [0x754C, 0x9762],
        [0x7F8E, 0x5316], ascii ''format'', [0x5E03, 0x5C40]]),
     (configuration, [ [0x914D, 0x7F6E], ascii ''config'', ascii ''configuration'', [0x8BBE, 0x7F6E],
        ascii ''setting'', ascii ''build'', ascii ''ci'', ascii ''chore'', ascii ''deps''])]"

definition CATEGORY_DISPLAY :: "(category \<times> pystr) list" where
  "CATEGORY_DISPLAY =
    [(new_features, [0x2728] @ ascii '' '' @ [0x65B0, 0x529F, 0x80FD]),
     (bug_fixes, [0x1F41B] @ ascii '' '' @ [0x95EE, 0x9898, 0x4FEE, 0x590D]),
     (performance, [0x26A1] @ ascii '' '' @ [0x6027, 0x80FD, 0x4F18, 0x5316]),
     (refactoring, [0x1F528] @ ascii '' '' @ [0x4EE3, 0x7801, 0x91CD, 0x6784]),
     (styling, [0x1F3A8] @ ascii '' '' @ [0x6837, 0x5F0F, 0x8C03, 0x6574]),
     (configuration, [0x1F527] @ ascii '' '' @ [0x914D, 0x7F6E, 0x53D8, 0x66F4]),
     (documentation, [0x1F4DD] @ ascii '' '' @ [0x6587, 0x6863, 0x66F4, 0x65B0]),
     (others, [0x1F4E6] @ ascii '' '' @ [0x5176, 0x4ED6, 0x53D8, 0x66F4])]"

definition SKIP_COMMIT_KEYWORDS :: "pystr list" where
  "SKIP_COMMIT_KEYWORDS = [ascii ''merge'', ascii ''version'', [0x7248, 0x672C], ascii ''release'']"

definition COMMIT_PREFIXES :: "pystr list" where
  "COMMIT_PREFIXES = [ascii ''feat:'', ascii ''fix:'', ascii ''chore:'', ascii ''docs:'',
     ascii ''style:'', ascii ''refactor:'', ascii ''perf:'', ascii ''test:'']"

section \<open>core.py: classify_commits\<close>

text \<open>\<open>any(skip in message for skip in SKIP_COMMIT_KEYWORDS)\<close>, on the lower-cased message.\<close>

definition is_skipped :: "pystr \<Rightarrow> bool" where
  "is_skipped msg = list_ex (\<lambda>skip. str_contains skip msg) SKIP_COMMIT_KEYWORDS"

text \<open>The inner loop over \<open>COMMIT_KEYWORDS.items()\<close>: the first category one of whose keywords
  occurs in the message, where the loop breaks; \<open>None\<close> when the loop ends with
  \<open>classified\<close> still false.\<close>

fun first_match :: "pystr \<Rightarrow> (category \<times> pystr list) list \<Rightarrow> category option" where
  "first_match msg [] = None"
| "first_match msg ((cat, keywords) # rest) =
     (if list_ex (\<lambda>keyword. str_contains keyword msg) keywords then Some cat
      else first_match msg rest)"

text \<open>The keyword list of a category (\<open>COMMIT_KEYWORDS.get(cat, [])\<close>; \<open>others\<close> has none), and
  whether one of its keywords occurs in a message.\<close>

definition keywords_of :: "category \<Rightarrow> pystr list" where
  "keywords_of cat = (case map_of COMMIT_KEYWORDS cat of None \<Rightarrow> [] | Some keywords \<Rightarrow> keywords)"

definition has_keyword :: "category \<Rightarrow> pystr \<Rightarrow> bool" where
  "has_keyword cat msg = list_ex (\<lambda>keyword. str_contains keyword msg) (keywords_of cat)"

text \<open>The body of the outer loop for one commit: the category list it is appended to, or
  \<open>None\<close> for \<open>continue\<close>.\<close>

definition target_category :: "(pystr \<Rightarrow> pystr) \<Rightarrow> CommitInfo \<Rightarrow> category option" where
  "target_category lower commit =
     (let msg = lower (message commit) in
      if is_skipped msg then None
      else (case first_match msg COMMIT_KEYWORDS of
              Some cat \<Rightarrow> Some cat
            | None \<Rightarrow> Some others))"

text \<open>The outer loop, threading the dictionary \<open>categories\<close> (a list of commits for each of
  the eight keys).\<close>

fun classify_loop ::
  "(pystr \<Rightarrow> pystr) \<Rightarrow> CommitInfo list \<Rightarrow> (category \<Rightarrow> CommitInfo list) \<Rightarrow> (category \<Rightarrow> CommitInfo list)"
where
  "classify_loop lower [] categories = categories"
| "classify_loop lower (commit # commits) categories =
     (case target_category lower commit of
        None \<Rightarrow> classify_loop lower commits categories
      | Some cat \<Rightarrow> classify_loop lower commits (categories(cat := categories cat @ [commit])))"

definition classify_commits ::
  "(pystr \<Rightarrow> pystr) \<Rightarrow> CommitInfo list \<Rightarrow> (category \<Rightarrow> CommitInfo list)"
where
  "classify_commits lower commits = classify_loop lower commits (\<lambda>key. [])"

text \<open>\<open>sum(len(v) for v in categories.values())\<close>: the values in key order.\<close>

definition total_categorized :: "(category \<Rightarrow> CommitInfo list) \<Rightarrow> nat" where
  "total_categorized categories = sum_list (map (\<lambda>(key, title). length (categories key)) CATEGORY_DISPLAY)"

section \<open>core.py: format_commit_message\<close>

text \<open>\<open>str.strip()\<close> removes leading and trailing characters for which \<open>str.isspace\<close> holds.\<close>

definition isspace :: "nat \<Rightarrow> bool" where
  "isspace c \<longleftrightarrow>
     (0x09 \<le> c \<and> c \<le> 0x0D) \<or> (0x1C \<le> c \<and> c \<le> 0x20) \<or> c = 0x85 \<or> c = 0xA0 \<or> c = 0x1680
     \<or> (0x2000 \<le> c \<and> c \<le> 0x200A) \<or> c = 0x2028 \<or> c = 0x2029 \<or> c = 0x202F \<or> c = 0x205F
     \<or> c = 0x3000"

definition strip :: "pystr \<Rightarrow> pystr" where
  "strip s = rev (dropWhile isspace (rev (dropWhile isspace s)))"

text \<open>The loop over \<open>COMMIT_PREFIXES\<close>: at the first prefix that the lower-cased text starts
  with, the prefix is cut off, the rest stripped, and the loop left.\<close>

fun strip_prefix_loop :: "(pystr \<Rightarrow> pystr) \<Rightarrow> pystr \<Rightarrow> pystr list \<Rightarrow> pystr" where
  "strip_prefix_loop lower formatted [] = formatted"
| "strip_prefix_loop lower formatted (p # ps) =
     (if prefix p (lower formatted) then strip (drop (length p) formatted)
      else strip_prefix_loop lower formatted ps)"

definition format_commit_message :: "(pystr \<Rightarrow> pystr) \<Rightarrow> (pystr \<Rightarrow> pystr) \<Rightarrow> pystr \<Rightarrow> pystr" where
  "format_commit_message lower upper msg =
     (case strip_prefix_loop lower msg COMMIT_PREFIXES of
        [] \<Rightarrow> []
      | c # rest \<Rightarrow> upper [c] @ rest)"

section \<open>core.py: generate_basic_changelog\<close>

text \<open>\<open>sep.join(parts)\<close>.\<close>

fun join :: "pystr \<Rightarrow> pystr list \<Rightarrow> pystr" where
  "join sep [] = []"
| "join sep [x] = x"
| "join sep (x # y # ys) = x @ sep @ join sep (y # ys)"

text \<open>The decimal text of a non-negative integer, as an f-string renders a length.\<close>

function str_of_nat :: "nat \<Rightarrow> pystr" where
  "str_of_nat n = (if n < 10 then [48 + n] else str_of_nat (n div 10) @ [48 + n mod 10])"
  by pat_completeness auto
termination
  by (relation "measure (\<lambda>n. n)") auto

definition NO_CHANGES_FOUND :: pystr where
  "NO_CHANGES_FOUND = [0x26A0, 0xFE0F] @ ascii '' No changes found\<newline>''"

text \<open>The statistics line of basic mode: the number of classified commits and of files.\<close>

definition basic_statistics :: "nat \<Rightarrow> nat \<Rightarrow> pystr" where
  "basic_statistics n files =
     ascii ''\<newline>\<newline>---\<newline>\<newline>**'' @ [0x53D8, 0x66F4, 0x7EDF, 0x8BA1] @ ascii ''**: ''
     @ str_of_nat n
     @ ascii '' '' @ [0x9879, 0x53D8, 0x66F4, 0xFF0C, 0x6D89, 0x53CA] @ ascii '' ''
     @ str_of_nat files
     @ ascii '' '' @ [0x4E2A, 0x6587, 0x4EF6] @ ascii ''\<newline>''"

text \<open>The collapsible block around the diff statistics (the same literal in both modes).\<close>

definition details_block :: "pystr \<Rightarrow> pystr" where
  "details_block diff_stat =
     ascii ''\<newline><details>\<newline><summary>'' @ [0x1F4C8] @ ascii '' ''
     @ [0x6587, 0x4EF6, 0x53D8, 0x66F4, 0x8BE6, 0x60C5]
     @ ascii ''</summary>\<newline>\<newline>```\<newline>''
     @ diff_stat
     @ ascii ''\<newline>```\<newline></details>\<newline>''"

text \<open>One bullet of a section.\<close>

definition item_line :: "(pystr \<Rightarrow> pystr) \<Rightarrow> (pystr \<Rightarrow> pystr) \<Rightarrow> bool \<Rightarrow> CommitInfo \<Rightarrow> pystr" where
  "item_line lower upper verbose item =
     (let msg = format_commit_message lower upper (message item);
          suffix = (if verbose then ascii '' ('' @ take 7 (hash item) @ ascii '')'' else [])
      in ascii ''- '' @ msg @ suffix)"

text \<open>The loop over \<open>CATEGORY_DISPLAY\<close> that fills \<open>changelog_parts\<close>.\<close>

fun changelog_parts ::
  "(pystr \<Rightarrow> pystr) \<Rightarrow> (pystr \<Rightarrow> pystr) \<Rightarrow> bool \<Rightarrow> (category \<Rightarrow> CommitInfo list)
     \<Rightarrow> (category \<times> pystr) list \<Rightarrow> pystr list"
where
  "changelog_parts lower upper verbose categories [] = []"
| "changelog_parts lower upper verbose categories ((key, title) # rest) =
     (let items = categories key in
      if items \<noteq> [] then
        join (ascii ''\<newline>'')
          ((ascii ''## '' @ title @ ascii ''\<newline>'') # map (item_line lower upper verbose) items)
        # changelog_parts lower upper verbose categories rest
      else changelog_parts lower upper verbose categories rest)"

definition generate_basic_changelog ::
  "(pystr \<Rightarrow> pystr) \<Rightarrow> (pystr \<Rightarrow> pystr) \<Rightarrow> CommitInfo list \<Rightarrow> pystr list \<Rightarrow> pystr \<Rightarrow> bool \<Rightarrow> pystr"
where
  "generate_basic_changelog lower upper commits changed_files diff_stat verbose =
     (if commits = [] then NO_CHANGES_FOUND
      else
        let categories = classify_commits lower commits;
            n_categorized = total_categorized categories;
            changelog = join (ascii ''\<newline>\<newline>'')
                          (changelog_parts lower upper verbose categories CATEGORY_DISPLAY);
            changelog = changelog @ basic_statistics n_categorized (length changed_files)
        in if diff_stat \<noteq> [] then changelog @ details_block diff_stat else changelog)"

section \<open>ai/base.py: build_ai_prompt\<close>

definition commit_text :: "CommitInfo list \<Rightarrow> pystr" where
  "commit_text commits =
     join (ascii ''\<newline>'')
       (map (\<lambda>c. ascii ''- ['' @ take 7 (hash c) @ ascii ''] '' @ message c @ ascii '' (by ''
                  @ author c @ ascii '', '' @ date c @ ascii '')'') commits)"

text \<open>The text of the template after the embedded diff.\<close>

definition PROMPT_TAIL :: pystr where
  "PROMPT_TAIL =
     ascii ''\<newline>```\<newline>\<newline>''
     @ [0x8BF7, 0x6839, 0x636E, 0x4EE5, 0x4E0A, 0x4FE1, 0x606F, 0xFF0C, 0x751F, 0x6210, 0x7ED3, 0x6784,
        0x6E05, 0x6670, 0x7684, 0x7248, 0x672C, 0x66F4, 0x65B0, 0x6458, 0x8981, 0x3002, 0x91CD, 0x70B9,
        0x5173, 0x6CE8, 0xFF1A]
     @ ascii ''\<newline>1. ''
     @ [0x5B9E, 0x9645, 0x7684, 0x529F, 0x80FD, 0x53D8, 0x5316, 0xFF08, 0x4E0D, 0x8981, 0x7B80, 0x5355,
        0x590D, 0x8FF0]
     @ ascii ''commit message'' @ [0xFF09]
     @ ascii ''\<newline>2. '' @ [0x7528, 0x6237, 0x53EF, 0x611F, 0x77E5, 0x7684, 0x6539, 0x8FDB]
     @ ascii ''\<newline>3. '' @ [0x4FEE, 0x590D, 0x7684, 0x95EE, 0x9898]
     @ ascii ''\<newline>4. '' @ [0x6280, 0x672F, 0x5C42, 0x9762, 0x7684, 0x4F18, 0x5316]
     @ ascii ''\<newline>\<newline>''
     @ [0x6CE8, 0x610F, 0x5408, 0x5E76, 0x76F8, 0x5173, 0x7684, 0x53D8, 0x66F4, 0xFF0C, 0x4F7F, 0x8F93,
        0x51FA, 0x7B80, 0x6D01, 0x6709, 0x5E8F, 0x3002]"

text \<open>The text of the template up to the embedded diff, with its fields filled in.\<close>

definition prompt_head :: "pystr \<Rightarrow> pystr \<Rightarrow> CommitInfo list \<Rightarrow> pystr \<Rightarrow> pystr" where
  "prompt_head from_ref to_ref commits diff_stat =
     [0x8BF7, 0x5206, 0x6790, 0x4EE5, 0x4E0B, 0x4EE3, 0x7801, 0x53D8, 0x66F4, 0xFF0C, 0x751F, 0x6210,
      0x7248, 0x672C, 0x66F4, 0x65B0, 0x6458, 0x8981, 0xFF1A]
     @ ascii ''\<newline>\<newline>## '' @ [0x7248, 0x672C, 0x4FE1, 0x606F] @ ascii ''\<newline>''
     @ [0x4ECE] @ ascii '': '' @ from_ref
     @ ascii ''\<newline>'' @ [0x5230] @ ascii '': '' @ to_ref
     @ ascii ''\<newline>\<newline>## '' @ [0x63D0, 0x4EA4, 0x8BB0, 0x5F55] @ ascii '' (''
     @ str_of_nat (length commits) @ [0x4E2A, 0x63D0, 0x4EA4] @ ascii '')\<newline>''
     @ commit_text commits
     @ ascii ''\<newline>\<newline>## '' @ [0x6587, 0x4EF6, 0x53D8, 0x66F4, 0x7EDF, 0x8BA1] @ ascii ''\<newline>''
     @ diff_stat
     @ ascii ''\<newline>\<newline>## '' @ [0x4EE3, 0x7801, 0x5DEE, 0x5F02]
     @ ascii '' (Git Diff)\<newline>```diff\<newline>''"

definition build_ai_prompt :: "pystr \<Rightarrow> pystr \<Rightarrow> CommitInfo list \<Rightarrow> pystr \<Rightarrow> pystr \<Rightarrow> pystr" where
  "build_ai_prompt from_ref to_ref commits diff diff_stat =
     (let diff_content =
            (if length diff > DEFAULT_MAX_DIFF_CHARS then take DEFAULT_MAX_DIFF_CHARS diff else diff)
      in prompt_head from_ref to_ref commits diff_stat @ diff_content @ PROMPT_TAIL)"

section \<open>config.py\<close>

record AIConfig =
  base_url :: pystr
  api_key_env :: pystr
  model :: pystr

definition AI_CONFIGS :: "(pystr \<times> AIConfig) list" where
  "AI_CONFIGS =
    [(ascii ''gemini'',
        \<lparr>base_url = ascii ''https://generativelanguage.googleapis.com/v1beta/models/{model}:generateContent'',
         api_key_env = ascii ''GOOGLE_API_KEY'', model = ascii ''gemini-3-flash-preview''\<rparr>),
     (ascii ''openai'',
        \<lparr>base_url = ascii ''https://api.openai.com/v1/chat/completions'',
         api_key_env = ascii ''OPENAI_API_KEY'', model = ascii ''gpt-4o''\<rparr>),
     (ascii ''deepseek'',
        \<lparr>base_url = ascii ''https://api.deepseek.com/v1/chat/completions'',
         api_key_env = ascii ''DEEPSEEK_API_KEY'', model = ascii ''deepseek-chat''\<rparr>)]"

definition get_ai_config :: "pystr \<Rightarrow> AIConfig option" where
  "get_ai_config provider = map_of AI_CONFIGS provider"

section \<open>The collaborators and the trace of their calls\<close>

text \<open>
  The pipeline reads the repository through the functions of \<open>git.py\<close>, which run the
  \<open>git\<close> executable, and reaches the AI service through \<open>urllib\<close>. What these answer is
  not determined by the program, so the model takes the answers as the fields of an
  environment:
  \<^item> \<open>get_git_commits\<close>, \<open>get_git_diff_files\<close>, \<open>get_git_diff\<close>, \<open>get_git_diff_stat\<close>: what
    the functions of these names return for their arguments;
  \<^item> \<open>should_ignore_file\<close>: the \<open>fnmatch\<close> test of a path against \<open>IGNORE_PATTERNS\<close>;
  \<^item> \<open>environ\<close>: \<open>os.environ\<close>;
  \<^item> \<open>ai_service\<close>: the outcome of the HTTP exchange made by \<open>call_ai_api\<close> for a provider,
    an API key and a prompt: \<open>Some\<close> of the text taken from the decoded response, or \<open>None\<close>
    where the source returns \<open>None\<close> from one of its \<open>except\<close> branches (HTTP error,
    network error, a response without the expected fields).
  Each call of a collaborator is recorded, in order, as an event of a trace that the
  functions return beside their value. Console output (\<open>print\<close>) is not modelled.
\<close>

record env =
  get_git_commits :: "pystr \<Rightarrow> pystr \<Rightarrow> CommitInfo list"
  get_git_diff_files :: "pystr \<Rightarrow> pystr \<Rightarrow> bool \<Rightarrow> pystr list"
  should_ignore_file :: "pystr \<Rightarrow> bool"
  get_git_diff :: "pystr \<Rightarrow> pystr \<Rightarrow> pystr list \<Rightarrow> pystr"
  get_git_diff_stat :: "pystr \<Rightarrow> pystr \<Rightarrow> pystr list \<Rightarrow> pystr"
  environ :: "pystr \<Rightarrow> pystr option"
  ai_service :: "pystr \<Rightarrow> pystr \<Rightarrow> pystr \<Rightarrow> pystr option"

datatype event =
  Git_commits pystr pystr
  | Git_diff_files pystr pystr bool
  | Git_diff pystr pystr "pystr list"
  | Git_diff_stat pystr pystr "pystr list"
  | Ai_request pystr pystr

text \<open>\<open>AIConfig.api_key\<close>: \<open>os.environ.get(self.api_key_env, "")\<close>.\<close>

definition api_key :: "env \<Rightarrow> AIConfig \<Rightarrow> pystr" where
  "api_key e config = (case environ e (api_key_env config) of None \<Rightarrow> [] | Some v \<Rightarrow> v)"

section \<open>ai/base.py: call_ai_api\<close>

definition call_ai_api :: "env \<Rightarrow> pystr \<Rightarrow> pystr \<Rightarrow> pystr option \<times> event list" where
  "call_ai_api e prompt provider =
     (case get_ai_config provider of
        None \<Rightarrow> (None, [])
      | Some config \<Rightarrow>
          (let key = api_key e config in
           if key = [] then (None, [])
           else (ai_service e provider key prompt, [Ai_request provider prompt])))"

section \<open>core.py: generate_ai_changelog and generate_changelog\<close>

definition DRY_RUN_SENTINEL :: pystr where
  "DRY_RUN_SENTINEL = ascii ''[DRY-RUN Mode - AI not called]''"

definition generate_ai_changelog ::
  "env \<Rightarrow> pystr \<Rightarrow> pystr \<Rightarrow> CommitInfo list \<Rightarrow> pystr list \<Rightarrow> pystr \<Rightarrow> pystr \<Rightarrow> pystr \<Rightarrow> bool
     \<Rightarrow> pystr option \<times> event list"
where
  "generate_ai_changelog e from_ref to_ref commits all_files diff diff_stat provider dry_run =
     (if commits = [] then (None, [])
      else
        let prompt = build_ai_prompt from_ref to_ref commits diff diff_stat in
        if dry_run then (Some DRY_RUN_SENTINEL, [])
        else call_ai_api e prompt provider)"

definition header_title :: "pystr \<Rightarrow> pystr \<Rightarrow> pystr" where
  "header_title from_ref to_ref =
     ascii ''# '' @ [0x66F4, 0x65B0, 0x65E5, 0x5FD7] @ ascii ''\<newline>\<newline>**''
     @ from_ref @ ascii '' '' @ [0x2192] @ ascii '' '' @ to_ref"

text \<open>The document returned when the range has no commits.\<close>

definition no_changes_document :: "pystr \<Rightarrow> pystr \<Rightarrow> pystr" where
  "no_changes_document from_ref to_ref =
     header_title from_ref to_ref @ ascii ''**\<newline>\<newline>'' @ [0x26A0, 0xFE0F] @ ascii '' ''
     @ [0x672A, 0x53D1, 0x73B0, 0x4EFB, 0x4F55, 0x53D8, 0x66F4] @ ascii ''\<newline>''"

text \<open>The header: title, range and, when there are commits, the date line. The oldest
  commit is the last of the list (\<open>commits[-1]\<close>), the newest the first.\<close>

definition make_header :: "pystr \<Rightarrow> pystr \<Rightarrow> CommitInfo list \<Rightarrow> pystr" where
  "make_header from_ref to_ref commits =
     (let header = header_title from_ref to_ref @ ascii ''**\<newline>\<newline>'' in
      if commits \<noteq> [] then
        let first_date = date (last commits); last_date = date (hd commits);
            date_info =
              (if first_date = last_date
               then [0x1F4C5] @ ascii '' '' @ [0x53D1, 0x5E03, 0x65E5, 0x671F] @ ascii '': '' @ last_date
               else [0x1F4C5] @ ascii '' '' @ [0x53D8, 0x66F4, 0x5468, 0x671F] @ ascii '': ''
                    @ first_date @ ascii '' ~ '' @ last_date)
        in header @ date_info @ ascii ''\<newline>\<newline>''
      else header)"

definition DRY_RUN_BODY :: pystr where
  "DRY_RUN_BODY = ascii ''\<newline>[DRY-RUN Mode - Debug output above, no content generated]\<newline>''"

text \<open>The statistics line of AI mode: the number of all commits and of files.\<close>

definition ai_statistics :: "nat \<Rightarrow> nat \<Rightarrow> pystr" where
  "ai_statistics n files =
     ascii ''\<newline>\<newline>---\<newline>\<newline>**'' @ [0x53D8, 0x66F4, 0x7EDF, 0x8BA1] @ ascii ''**: ''
     @ str_of_nat n
     @ ascii '' '' @ [0x6B21, 0x63D0, 0x4EA4, 0xFF0C, 0x6D89, 0x53CA] @ ascii '' ''
     @ str_of_nat files
     @ ascii '' '' @ [0x4E2A, 0x6587, 0x4EF6] @ ascii ''\<newline>''"

definition generate_changelog ::
  "env \<Rightarrow> (pystr \<Rightarrow> pystr) \<Rightarrow> (pystr \<Rightarrow> pystr) \<Rightarrow> pystr \<Rightarrow> pystr \<Rightarrow> bool \<Rightarrow> pystr \<Rightarrow> bool \<Rightarrow> bool
     \<Rightarrow> pystr \<times> event list"
where
  "generate_changelog e lower upper from_ref to_ref use_ai ai_provider verbose dry_run =
     (let commits = get_git_commits e from_ref to_ref in
      if commits = [] then (no_changes_document from_ref to_ref, [Git_commits from_ref to_ref])
      else
        let all_files = get_git_diff_files e from_ref to_ref True;
            changed_files = filter (\<lambda>f. \<not> should_ignore_file e f) all_files;
            diff = get_git_diff e from_ref to_ref changed_files;
            diff_stat = get_git_diff_stat e from_ref to_ref changed_files;
            calls = [Git_commits from_ref to_ref, Git_diff_files from_ref to_ref True,
                     Git_diff from_ref to_ref changed_files,
                     Git_diff_stat from_ref to_ref changed_files];
            header = make_header from_ref to_ref commits
        in
        if use_ai \<or> dry_run then
          let (ai_content, ai_calls) =
                generate_ai_changelog e from_ref to_ref commits all_files diff diff_stat
                  ai_provider dry_run
          in
          if dry_run then (header @ DRY_RUN_BODY, calls @ ai_calls)
          else if ai_content \<noteq> None \<and> ai_content \<noteq> Some [] then
            let content = the ai_content;
                content =
                  (if diff_stat \<noteq> [] then
                     content @ ai_statistics (length commits) (length changed_files)
                     @ details_block diff_stat
                   else content)
            in (header @ content, calls @ ai_calls)
          else
            (header @ generate_basic_changelog lower upper commits changed_files diff_stat verbose,
             calls @ ai_calls)
        else
          (header @ generate_basic_changelog lower upper commits changed_files diff_stat verbose,
           calls))"

section \<open>notify.py: truncate_content_for_wecom\<close>

text \<open>
  \<open>str.encode('utf-8')\<close>: the bytes of a code point, and \<open>None\<close> where Python raises
  \<open>UnicodeEncodeError\<close> (a surrogate code point; a number from 0x110000 on is no code point
  and cannot occur in a \<open>str\<close>).
\<close>

definition utf8_char :: "nat \<Rightarrow> nat list option" where
  "utf8_char c =
     (if c < 0x80 then Some [c]
      else if c < 0x800 then Some [0xC0 + c div 64, 0x80 + c mod 64]
      else if c < 0x10000 then
        (if 0xD800 \<le> c \<and> c \<le> 0xDFFF then None
         else Some [0xE0 + c div 4096, 0x80 + (c div 64) mod 64, 0x80 + c mod 64])
      else if c < 0x110000 then
        Some [0xF0 + c div 262144, 0x80 + (c div 4096) mod 64, 0x80 + (c div 64) mod 64,
              0x80 + c mod 64]
      else None)"

fun encode_utf8 :: "pystr \<Rightarrow> nat list option" where
  "encode_utf8 [] = Some []"
| "encode_utf8 (c # cs) =
     (case utf8_char c of
        None \<Rightarrow> None
      | Some bs \<Rightarrow> (case encode_utf8 cs of None \<Rightarrow> None | Some rest \<Rightarrow> Some (bs @ rest)))"

datatype py_error = UnicodeEncodeError

text \<open>\<open>s[:k]\<close>: a negative \<open>k\<close> counts from the end.\<close>

definition slice_to :: "pystr \<Rightarrow> int \<Rightarrow> pystr" where
  "slice_to s k = (if 0 \<le> k then take (nat k) s else take (nat (int (length s) + k)) s)"

text \<open>\<open>s.rfind(c)\<close> for a one-character \<open>c\<close>: the highest index of \<open>c\<close> in \<open>s\<close>, or \<open>-1\<close>.\<close>

fun rfind :: "pystr \<Rightarrow> nat \<Rightarrow> int" where
  "rfind [] c = - 1"
| "rfind (x # xs) c =
     (let r = rfind xs c in if 0 \<le> r then r + 1 else if x = c then 0 else - 1)"

definition TRUNCATION_NOTICE :: pystr where
  "TRUNCATION_NOTICE =
     ascii ''\<newline>\<newline>'' @ [0x26A0, 0xFE0F] @ ascii '' ''
     @ [0x5185, 0x5BB9, 0x8FC7, 0x957F, 0x5DF2, 0x622A, 0x65AD, 0xFF0C, 0x5B8C, 0x6574, 0x5185, 0x5BB9,
        0x8BF7, 0x67E5, 0x770B, 0x63A7, 0x5236, 0x53F0, 0x6216, 0x6587, 0x4EF6, 0x8F93, 0x51FA]"

text \<open>
  The \<open>while\<close> loop that cuts 100 characters off the end until the encoding fits. With a
  negative \<open>target_bytes\<close> it does not end (the empty string stays empty and stays too long),
  so the loop is a partial function: \<open>None\<close> is "does not return", \<open>Some (Inl _)\<close> a raised
  exception, \<open>Some (Inr _)\<close> the value of \<open>truncated\<close> after the loop.
\<close>

partial_function (option) truncate_loop :: "int \<Rightarrow> pystr \<Rightarrow> (py_error + pystr) option" where
  "truncate_loop target_bytes truncated =
     (case encode_utf8 truncated of
        None \<Rightarrow> Some (Inl UnicodeEncodeError)
      | Some bs \<Rightarrow>
          if int (length bs) > target_bytes
          then truncate_loop target_bytes (slice_to truncated (int (length truncated) - 100))
          else Some (Inr truncated))"

text \<open>The step after the loop: \<open>truncated\<close> is cut at its last newline when the index of
  that newline is greater than half the length of \<open>truncated\<close>.\<close>

definition cut_at_newline :: "pystr \<Rightarrow> pystr" where
  "cut_at_newline truncated =
     (let last_newline = rfind truncated 10 in
      if last_newline > int (length truncated) div 2
      then slice_to truncated last_newline else truncated)"

definition truncate_content_for_wecom :: "pystr \<Rightarrow> int \<Rightarrow> (py_error + pystr) option" where
  "truncate_content_for_wecom content max_bytes =
     (case encode_utf8 content of
        None \<Rightarrow> Some (Inl UnicodeEncodeError)
      | Some bs \<Rightarrow>
          if int (length bs) \<le> max_bytes then Some (Inr content)
          else
            let target_bytes = max_bytes - 100 in
            (case truncate_loop target_bytes content of
               None \<Rightarrow> None
             | Some (Inl err) \<Rightarrow> Some (Inl err)
             | Some (Inr truncated) \<Rightarrow>
                 Some (Inr (cut_at_newline truncated @ TRUNCATION_NOTICE))))"

section \<open>The data the pipeline works on\<close>

text \<open>The values that \<open>generate_changelog\<close> binds to \<open>changed_files\<close>, \<open>diff\<close>, \<open>diff_stat\<close> and
  (in ai mode) \<open>ai_content\<close>, as functions of the environment and the range.\<close>

definition changed_files_of :: "env \<Rightarrow> pystr \<Rightarrow> pystr \<Rightarrow> pystr list" where
  "changed_files_of e from_ref to_ref =
     filter (\<lambda>f. \<not> should_ignore_file e f) (get_git_diff_files e from_ref to_ref True)"

definition diff_of :: "env \<Rightarrow> pystr \<Rightarrow> pystr \<Rightarrow> pystr" where
  "diff_of e from_ref to_ref = get_git_diff e from_ref to_ref (changed_files_of e from_ref to_ref)"

definition diff_stat_of :: "env \<Rightarrow> pystr \<Rightarrow> pystr \<Rightarrow> pystr" where
  "diff_stat_of e from_ref to_ref =
     get_git_diff_stat e from_ref to_ref (changed_files_of e from_ref to_ref)"

definition ai_content_of :: "env \<Rightarrow> pystr \<Rightarrow> pystr \<Rightarrow> pystr \<Rightarrow> pystr option" where
  "ai_content_of e from_ref to_ref provider =
     fst (generate_ai_changelog e from_ref to_ref (get_git_commits e from_ref to_ref)
            (get_git_diff_files e from_ref to_ref True) (diff_of e from_ref to_ref)
            (diff_stat_of e from_ref to_ref) provider False)"

section \<open>Sample inputs\<close>

definition commit_merge :: CommitInfo where
  "commit_merge = \<lparr>hash = ascii ''a1b2c3d4e5f60718'', author = ascii ''Ann'',
     email = ascii ''ann@example.org'', date = ascii ''2024-01-05'',
     message = ascii ''Merge branch dev''\<rparr>"

definition commit_css_readme :: CommitInfo where
  "commit_css_readme = \<lparr>hash = ascii ''0f9e8d7c6b5a4938'', author = ascii ''Bob'',
     email = ascii ''bob@example.org'', date = ascii ''2024-01-01'',
     message = ascii ''Update css and readme''\<rparr>"

text \<open>An environment: the commits of every range, the changed files (of which
  \<open>CHANGELOG.md\<close> is ignored), the diff statistics of a non-empty file list, the API key of
  the \<open>gemini\<close> provider, and the answer of the AI service. As in \<open>git.py\<close>, the diff and its
  statistics are empty for an empty file list.\<close>

definition sample_env :: "CommitInfo list \<Rightarrow> pystr list \<Rightarrow> pystr \<Rightarrow> pystr option \<Rightarrow> env" where
  "sample_env commits files stat answer =
     \<lparr>get_git_commits = (\<lambda>from_ref to_ref. commits),
      get_git_diff_files = (\<lambda>from_ref to_ref include_ignored. files),
      should_ignore_file = (\<lambda>f. f = ascii ''CHANGELOG.md''),
      get_git_diff = (\<lambda>from_ref to_ref fs. if fs = [] then [] else ascii ''diff --git a/app.py b/app.py''),
      get_git_diff_stat = (\<lambda>from_ref to_ref fs. if fs = [] then [] else stat),
      environ = (\<lambda>name. if name = ascii ''GOOGLE_API_KEY'' then Some (ascii ''secret'') else None),
      ai_service = (\<lambda>provider key prompt. answer)\<rparr>"

text \<open>A range whose only changed file is ignored, so that the file list, the diff and the
  diff statistics are empty, with an AI service that answers.\<close>

definition env_ignored_only :: env where
  "env_ignored_only =
     sample_env [commit_css_readme] [ascii ''CHANGELOG.md''] (ascii '' 1 file changed'')
       (Some (ascii ''Summary''))"

text \<open>A range with two commits and one changed file that is not ignored; the answer of the
  AI service is a parameter.\<close>

definition env_two_commits :: "pystr option \<Rightarrow> env" where
  "env_two_commits answer =
     sample_env [commit_merge, commit_css_readme] [ascii ''CHANGELOG.md'', ascii ''app.py'']
       (ascii '' app.py | 2 +-'') answer"


definition late_newline_document :: pystr where
  "late_newline_document = replicate 3950 97 @ [10] @ replicate 1049 97"

section \<open>Classification is a partition-or-drop\<close>

lemma classify_loop_filter:
  "classify_loop lower commits categories key =
     categories key @ filter (\<lambda>c. target_category lower c = Some key) commits"
  by (induction commits arbitrary: categories) (auto split: option.splits)

lemma classify_commits_filter:
  "classify_commits lower commits key = filter (\<lambda>c. target_category lower c = Some key) commits"
  by (simp add: classify_commits_def classify_loop_filter)

lemma total_categorized_unfold:
  "total_categorized cats =
     length (cats new_features) + length (cats bug_fixes) + length (cats performance)
     + length (cats refactoring) + length (cats styling) + length (cats configuration)
     + length (cats documentation) + length (cats others)"
  by (simp add: total_categorized_def CATEGORY_DISPLAY_def)

lemma length_filter_split8:
  fixes f :: "'a \<Rightarrow> category option"
  shows "length (filter (\<lambda>c. f c = Some new_features) xs) + length (filter (\<lambda>c. f c = Some bug_fixes) xs)
     + length (filter (\<lambda>c. f c = Some performance) xs) + length (filter (\<lambda>c. f c = Some refactoring) xs)
     + length (filter (\<lambda>c. f c = Some styling) xs) + length (filter (\<lambda>c. f c = Some configuration) xs)
     + length (filter (\<lambda>c. f c = Some documentation) xs) + length (filter (\<lambda>c. f c = Some others) xs)
     + length (filter (\<lambda>c. f c = None) xs) = length xs"
proof (induction xs)
  case Nil
  show ?case by simp
next
  case (Cons x xs)
  show ?case
  proof (cases "f x")
    case None
    with Cons show ?thesis by simp
  next
    case (Some k)
    with Cons show ?thesis by (cases k) simp_all
  qed
qed

lemma total_categorized_classify:
  "total_categorized (classify_commits lower commits)
     + length (filter (\<lambda>c. target_category lower c = None) commits) = length commits"
  unfolding total_categorized_unfold classify_commits_filter
  by (rule length_filter_split8)

lemma target_category_None:
  "target_category lower c = None \<longleftrightarrow> is_skipped (lower (message c))"
  by (simp add: target_category_def Let_def split: option.splits)

text \<open>
  C1. For every list of commits: a commit whose lower-cased message contains a skip keyword
  is in no category list; every other commit of the input is in exactly one category list,
  and that is \<open>others\<close> when no keyword list matches; the members of the category lists
  together with the skipped commits are the commits of the input; and the number of
  classified commits is at most the number of input commits.
\<close>

theorem classify_commits_partition_or_drop:
  "(\<forall>c \<in> set commits. is_skipped (lower (message c)) \<longrightarrow>
       (\<forall>key. c \<notin> set (classify_commits lower commits key)))
   \<and> (\<forall>c \<in> set commits. \<not> is_skipped (lower (message c)) \<longrightarrow>
       (\<exists>!key. c \<in> set (classify_commits lower commits key)))
   \<and> (\<forall>c \<in> set commits. \<not> is_skipped (lower (message c))
         \<and> first_match (lower (message c)) COMMIT_KEYWORDS = None \<longrightarrow>
       c \<in> set (classify_commits lower commits others))
   \<and> (\<Union>key. set (classify_commits lower commits key))
         \<union> {c \<in> set commits. is_skipped (lower (message c))} = set commits
   \<and> total_categorized (classify_commits lower commits) \<le> length commits"
proof (intro conjI)
  show "\<forall>c \<in> set commits. is_skipped (lower (message c)) \<longrightarrow>
          (\<forall>key. c \<notin> set (classify_commits lower commits key))"
    by (simp add: classify_commits_filter target_category_None [symmetric])
next
  show "\<forall>c \<in> set commits. \<not> is_skipped (lower (message c)) \<longrightarrow>
          (\<exists>!key. c \<in> set (classify_commits lower commits key))"
  proof (intro ballI impI)
    fix c assume c: "c \<in> set commits" and ns: "\<not> is_skipped (lower (message c))"
    from ns obtain k where k: "target_category lower c = Some k"
      using target_category_None [of lower c] by (cases "target_category lower c") auto
    show "\<exists>!key. c \<in> set (classify_commits lower commits key)"
    proof
      show "c \<in> set (classify_commits lower commits k)"
        using c k by (simp add: classify_commits_filter)
    next
      fix key assume "c \<in> set (classify_commits lower commits key)"
      then show "key = k" using k by (simp add: classify_commits_filter)
    qed
  qed
next
  show "\<forall>c \<in> set commits. \<not> is_skipped (lower (message c))
          \<and> first_match (lower (message c)) COMMIT_KEYWORDS = None \<longrightarrow>
        c \<in> set (classify_commits lower commits others)"
    by (simp add: classify_commits_filter target_category_def Let_def)
next
  show "(\<Union>key. set (classify_commits lower commits key))
          \<union> {c \<in> set commits. is_skipped (lower (message c))} = set commits"
  proof (intro set_eqI iffI)
    fix c assume "c \<in> (\<Union>key. set (classify_commits lower commits key))
          \<union> {c \<in> set commits. is_skipped (lower (message c))}"
    then show "c \<in> set commits" by (auto simp: classify_commits_filter)
  next
    fix c assume c: "c \<in> set commits"
    show "c \<in> (\<Union>key. set (classify_commits lower commits key))
          \<union> {c \<in> set commits. is_skipped (lower (message c))}"
    proof (cases "target_category lower c")
      case None
      with c show ?thesis by (simp add: target_category_None)
    next
      case (Some k)
      with c have "c \<in> set (classify_commits lower commits k)"
        by (simp add: classify_commits_filter)
      then show ?thesis by blast
    qed
  qed
next
  show "total_categorized (classify_commits lower commits) \<le> length commits"
    using total_categorized_classify [of lower commits] by linarith
qed


lemmas sample_eval =
  ascii_def ascii_lower_def is_skipped_def SKIP_COMMIT_KEYWORDS_def COMMIT_KEYWORDS_def
  target_category_def commit_merge_def commit_css_readme_def

lemma commit_merge_skipped: "is_skipped (ascii_lower (message commit_merge))"
  by (simp add: sample_eval)

lemma commit_css_readme_not_skipped: "\<not> is_skipped (ascii_lower (message commit_css_readme))"
  by (simp add: sample_eval)

theorem classify_commits_partition_or_drop_witness:
  "is_skipped (ascii_lower (message commit_merge))
   \<and> (\<forall>key. commit_merge \<notin> set (classify_commits ascii_lower [commit_merge, commit_css_readme] key))
   \<and> \<not> is_skipped (ascii_lower (message commit_css_readme))
   \<and> (\<exists>!key. commit_css_readme
          \<in> set (classify_commits ascii_lower [commit_merge, commit_css_readme] key))
   \<and> total_categorized (classify_commits ascii_lower [commit_merge, commit_css_readme]) \<le> 2"
  using classify_commits_partition_or_drop [of "[commit_merge, commit_css_readme]" ascii_lower]
    commit_merge_skipped commit_css_readme_not_skipped
  by simp

section \<open>First-match order of the classifier\<close>

lemma first_match_documentation:
  assumes "has_keyword documentation msg"
    and "\<not> has_keyword new_features msg" and "\<not> has_keyword bug_fixes msg"
    and "\<not> has_keyword performance msg" and "\<not> has_keyword refactoring msg"
  shows "first_match msg COMMIT_KEYWORDS = Some documentation"
  using assms by (simp add: has_keyword_def keywords_of_def COMMIT_KEYWORDS_def)

lemmas keyword_eval = has_keyword_def keywords_of_def sample_eval

text \<open>
  C4, as the code has it. The keyword lists are tried in the order of \<open>COMMIT_KEYWORDS\<close>
  (new_features, bug_fixes, performance, refactoring, documentation, styling,
  configuration), in which documentation comes before styling. So a commit whose lower-cased
  message contains no skip keyword, contains a keyword of both the styling and the
  documentation list, and contains no keyword of new_features, bug_fixes, performance,
  refactoring or configuration is assigned to documentation, and not to styling.
\<close>

theorem classify_documentation_before_styling:
  assumes "c \<in> set commits"
    and "\<not> is_skipped (lower (message c))"
    and "has_keyword styling (lower (message c))"
    and "has_keyword documentation (lower (message c))"
    and "\<not> has_keyword new_features (lower (message c))"
    and "\<not> has_keyword bug_fixes (lower (message c))"
    and "\<not> has_keyword performance (lower (message c))"
    and "\<not> has_keyword refactoring (lower (message c))"
    and "\<not> has_keyword configuration (lower (message c))"
  shows "c \<in> set (classify_commits lower commits documentation)
     \<and> c \<notin> set (classify_commits lower commits styling)"
proof -
  have "target_category lower c = Some documentation"
    using assms first_match_documentation [of "lower (message c)"]
    by (simp add: target_category_def Let_def)
  with assms(1) show ?thesis by (simp add: classify_commits_filter)
qed

lemma commit_css_readme_keywords:
  "has_keyword styling (ascii_lower (message commit_css_readme))"
  "has_keyword documentation (ascii_lower (message commit_css_readme))"
  "\<not> has_keyword new_features (ascii_lower (message commit_css_readme))"
  "\<not> has_keyword bug_fixes (ascii_lower (message commit_css_readme))"
  "\<not> has_keyword performance (ascii_lower (message commit_css_readme))"
  "\<not> has_keyword refactoring (ascii_lower (message commit_css_readme))"
  "\<not> has_keyword configuration (ascii_lower (message commit_css_readme))"
  by (simp_all add: keyword_eval)

theorem classify_documentation_before_styling_witness:
  "commit_css_readme \<in> set (classify_commits ascii_lower [commit_merge, commit_css_readme] documentation)
   \<and> commit_css_readme \<notin> set (classify_commits ascii_lower [commit_merge, commit_css_readme] styling)"
  using classify_documentation_before_styling
          [of commit_css_readme "[commit_merge, commit_css_readme]" ascii_lower]
    commit_css_readme_not_skipped commit_css_readme_keywords
  by simp

text \<open>
  The commit with the message \<open>Update css and readme\<close> meets every condition of the claim
  as first stated, and is put under documentation; the styling list stays empty.
\<close>

theorem classify_styling_counterexample:
  "\<not> is_skipped (ascii_lower (message commit_css_readme))
   \<and> has_keyword styling (ascii_lower (message commit_css_readme))
   \<and> has_keyword documentation (ascii_lower (message commit_css_readme))
   \<and> \<not> has_keyword new_features (ascii_lower (message commit_css_readme))
   \<and> \<not> has_keyword bug_fixes (ascii_lower (message commit_css_readme))
   \<and> \<not> has_keyword performance (ascii_lower (message commit_css_readme))
   \<and> \<not> has_keyword refactoring (ascii_lower (message commit_css_readme))
   \<and> \<not> has_keyword configuration (ascii_lower (message commit_css_readme))
   \<and> classify_commits ascii_lower [commit_css_readme] styling = []
   \<and> classify_commits ascii_lower [commit_css_readme] documentation = [commit_css_readme]"
  by (simp add: keyword_eval classify_commits_def)

section \<open>The message formatter\<close>

lemma strip_prefix_loop_none:
  "\<forall>p \<in> set ps. \<not> prefix p (lower m) \<Longrightarrow> strip_prefix_loop lower m ps = m"
  by (induction ps) auto

text \<open>
  C9. Formatting is idempotent on capitalised input without prefix: when the lower-cased
  message starts with none of \<open>COMMIT_PREFIXES\<close> and upper-casing its first character leaves
  that character as it is, formatting the formatted message gives the formatted message.
\<close>

theorem format_commit_message_idempotent:
  assumes "\<forall>p \<in> set COMMIT_PREFIXES. \<not> prefix p (lower m)"
    and "m \<noteq> [] \<longrightarrow> upper [hd m] = [hd m]"
  shows "format_commit_message lower upper (format_commit_message lower upper m)
           = format_commit_message lower upper m"
proof -
  have "format_commit_message lower upper m = m"
    using assms by (cases m) (simp_all add: format_commit_message_def strip_prefix_loop_none)
  then show ?thesis by simp
qed

theorem format_commit_message_idempotent_witness:
  "format_commit_message ascii_lower ascii_upper
       (format_commit_message ascii_lower ascii_upper (ascii ''Hello world''))
     = format_commit_message ascii_lower ascii_upper (ascii ''Hello world'')"
  using format_commit_message_idempotent [of ascii_lower "ascii ''Hello world''" ascii_upper]
  by (simp add: COMMIT_PREFIXES_def ascii_def ascii_lower_def ascii_upper_def)

section \<open>The basic report of a range of skipped commits\<close>

lemma classify_all_skipped:
  "\<forall>c \<in> set commits. is_skipped (lower (message c)) \<Longrightarrow> classify_commits lower commits key = []"
  by (simp add: classify_commits_filter target_category_None [symmetric])

lemma changelog_parts_empty:
  "\<forall>key. categories key = [] \<Longrightarrow> changelog_parts lower upper verbose categories display = []"
  by (induction display) auto

text \<open>
  C10. For a non-empty list of commits that are all skipped, the basic report has no
  section at all: it is the statistics line for 0 classified changes, followed by the
  collapsible block when the diff statistics are not empty; it is not the
  "no changes found" notice.
\<close>

theorem basic_changelog_all_skipped:
  assumes "commits \<noteq> []" and "\<forall>c \<in> set commits. is_skipped (lower (message c))"
  shows "changelog_parts lower upper verbose (classify_commits lower commits) CATEGORY_DISPLAY = []
    \<and> generate_basic_changelog lower upper commits changed_files diff_stat verbose
         = basic_statistics 0 (length changed_files)
           @ (if diff_stat \<noteq> [] then details_block diff_stat else [])
    \<and> generate_basic_changelog lower upper commits changed_files diff_stat verbose
         \<noteq> NO_CHANGES_FOUND"
proof -
  have cl: "\<And>key. classify_commits lower commits key = []"
    using assms(2) by (rule classify_all_skipped)
  have parts:
    "changelog_parts lower upper verbose (classify_commits lower commits) CATEGORY_DISPLAY = []"
    by (rule changelog_parts_empty) (simp add: cl)
  have tot: "total_categorized (classify_commits lower commits) = 0"
    by (simp add: total_categorized_unfold cl)
  have eq: "generate_basic_changelog lower upper commits changed_files diff_stat verbose
         = basic_statistics 0 (length changed_files)
           @ (if diff_stat \<noteq> [] then details_block diff_stat else [])"
    using assms(1) by (simp add: generate_basic_changelog_def Let_def parts tot)
  have "hd (generate_basic_changelog lower upper commits changed_files diff_stat verbose) = 10"
    unfolding eq by (simp add: basic_statistics_def ascii_def)
  moreover have "hd NO_CHANGES_FOUND = 0x26A0"
    by (simp add: NO_CHANGES_FOUND_def)
  ultimately have
    "generate_basic_changelog lower upper commits changed_files diff_stat verbose \<noteq> NO_CHANGES_FOUND"
    by auto
  with parts eq show ?thesis by simp
qed

theorem basic_changelog_all_skipped_witness:
  "[commit_merge] \<noteq> [] \<and> is_skipped (ascii_lower (message commit_merge))
   \<and> generate_basic_changelog ascii_lower ascii_upper [commit_merge] [ascii ''app.py''] [] False
        = basic_statistics 0 1
   \<and> generate_basic_changelog ascii_lower ascii_upper [commit_merge] [ascii ''app.py''] [] False
        \<noteq> NO_CHANGES_FOUND"
proof -
  have ne: "[commit_merge] \<noteq> []" by simp
  have sk: "\<forall>c \<in> set [commit_merge]. is_skipped (ascii_lower (message c))"
    using commit_merge_skipped by simp
  note all = basic_changelog_all_skipped
               [OF ne sk, of ascii_upper False "[ascii ''app.py'']" "[]"]
  from all have doc:
    "generate_basic_changelog ascii_lower ascii_upper [commit_merge] [ascii ''app.py''] [] False
       = basic_statistics 0 1"
    by simp
  from all have
    "generate_basic_changelog ascii_lower ascii_upper [commit_merge] [ascii ''app.py''] [] False
       \<noteq> NO_CHANGES_FOUND"
    by blast
  with doc commit_merge_skipped show ?thesis by blast
qed

section \<open>The pipeline\<close>

lemma generate_changelog_dry_run:
  assumes "get_git_commits e from_ref to_ref \<noteq> []"
  shows "generate_changelog e lower upper from_ref to_ref use_ai ai_provider verbose True
     = (make_header from_ref to_ref (get_git_commits e from_ref to_ref) @ DRY_RUN_BODY,
        [Git_commits from_ref to_ref, Git_diff_files from_ref to_ref True,
         Git_diff from_ref to_ref (changed_files_of e from_ref to_ref),
         Git_diff_stat from_ref to_ref (changed_files_of e from_ref to_ref)])"
  using assms
  by (simp add: generate_changelog_def generate_ai_changelog_def Let_def changed_files_of_def)

lemma generate_changelog_basic:
  assumes "get_git_commits e from_ref to_ref \<noteq> []"
  shows "fst (generate_changelog e lower upper from_ref to_ref False ai_provider verbose False)
     = make_header from_ref to_ref (get_git_commits e from_ref to_ref)
       @ generate_basic_changelog lower upper (get_git_commits e from_ref to_ref)
           (changed_files_of e from_ref to_ref) (diff_stat_of e from_ref to_ref) verbose"
  using assms
  by (simp add: generate_changelog_def Let_def changed_files_of_def diff_stat_of_def)

lemma generate_changelog_ai:
  assumes "get_git_commits e from_ref to_ref \<noteq> []"
  shows "fst (generate_changelog e lower upper from_ref to_ref True ai_provider verbose False)
     = make_header from_ref to_ref (get_git_commits e from_ref to_ref)
       @ (case ai_content_of e from_ref to_ref ai_provider of
            None \<Rightarrow> generate_basic_changelog lower upper (get_git_commits e from_ref to_ref)
                      (changed_files_of e from_ref to_ref) (diff_stat_of e from_ref to_ref) verbose
          | Some content \<Rightarrow>
              if content = [] then
                generate_basic_changelog lower upper (get_git_commits e from_ref to_ref)
                  (changed_files_of e from_ref to_ref) (diff_stat_of e from_ref to_ref) verbose
              else if diff_stat_of e from_ref to_ref \<noteq> [] then
                content @ ai_statistics (length (get_git_commits e from_ref to_ref))
                            (length (changed_files_of e from_ref to_ref))
                  @ details_block (diff_stat_of e from_ref to_ref)
              else content)"
  using assms
  by (simp add: generate_changelog_def Let_def changed_files_of_def diff_stat_of_def
      diff_of_def ai_content_of_def split: prod.splits option.splits)

text \<open>The ways in which \<open>call_ai_api\<close> gives no result without reaching the service.\<close>

lemma call_ai_api_unknown_provider:
  "get_ai_config provider = None \<Longrightarrow> call_ai_api e prompt provider = (None, [])"
  by (simp add: call_ai_api_def)

lemma call_ai_api_missing_key:
  "get_ai_config provider = Some config \<Longrightarrow> api_key e config = []
     \<Longrightarrow> call_ai_api e prompt provider = (None, [])"
  by (simp add: call_ai_api_def)

lemma call_ai_api_service:
  "get_ai_config provider = Some config \<Longrightarrow> api_key e config \<noteq> []
     \<Longrightarrow> fst (call_ai_api e prompt provider) = ai_service e provider (api_key e config) prompt"
  by (simp add: call_ai_api_def Let_def)

lemma get_ai_config_gemini:
  "get_ai_config (ascii ''gemini'') =
     Some \<lparr>base_url = ascii ''https://generativelanguage.googleapis.com/v1beta/models/{model}:generateContent'',
           api_key_env = ascii ''GOOGLE_API_KEY'', model = ascii ''gemini-3-flash-preview''\<rparr>"
  by (simp add: get_ai_config_def AI_CONFIGS_def ascii_def)

lemma sample_env_ai_content:
  "commits \<noteq> [] \<Longrightarrow>
     ai_content_of (sample_env commits files stat answer) from_ref to_ref (ascii ''gemini'') = answer"
  by (simp add: ai_content_of_def generate_ai_changelog_def call_ai_api_def get_ai_config_gemini
        api_key_def Let_def)
     (simp add: sample_env_def ascii_def)

lemma sample_env_commits [simp]:
  "get_git_commits (sample_env commits files stat answer) from_ref to_ref = commits"
  by (simp add: sample_env_def)



text \<open>
  C6. In dry-run mode with a non-empty commit list the document is the header followed by
  the fixed placeholder body, the trace holds no request to the AI service, and document
  and trace are the same whatever the API keys of the environment and the answers of the
  AI service are.
\<close>

theorem dry_run_never_calls_ai:
  assumes "get_git_commits e from_ref to_ref \<noteq> []"
  shows "fst (generate_changelog e lower upper from_ref to_ref use_ai ai_provider verbose True)
           = make_header from_ref to_ref (get_git_commits e from_ref to_ref) @ DRY_RUN_BODY
     \<and> (\<forall>provider prompt. Ai_request provider prompt
            \<notin> set (snd (generate_changelog e lower upper from_ref to_ref use_ai ai_provider
                           verbose True)))
     \<and> generate_changelog (e\<lparr>environ := keys, ai_service := service\<rparr>) lower upper
            from_ref to_ref use_ai ai_provider verbose True
         = generate_changelog e lower upper from_ref to_ref use_ai ai_provider verbose True"
proof -
  let ?e' = "e\<lparr>environ := keys, ai_service := service\<rparr>"
  have ne: "get_git_commits ?e' from_ref to_ref \<noteq> []" using assms by simp
  have cf: "changed_files_of ?e' from_ref to_ref = changed_files_of e from_ref to_ref"
    by (simp add: changed_files_of_def)
  show ?thesis
    unfolding generate_changelog_dry_run [OF assms] generate_changelog_dry_run [OF ne] cf
    by simp
qed

theorem dry_run_never_calls_ai_witness:
  "fst (generate_changelog (env_two_commits (Some (ascii ''Summary''))) ascii_lower ascii_upper
          (ascii ''v1'') (ascii ''v2'') True (ascii ''gemini'') False True)
     = make_header (ascii ''v1'') (ascii ''v2'') [commit_merge, commit_css_readme] @ DRY_RUN_BODY
   \<and> Ai_request (ascii ''gemini'') []
       \<notin> set (snd (generate_changelog (env_two_commits (Some (ascii ''Summary''))) ascii_lower
                      ascii_upper (ascii ''v1'') (ascii ''v2'') True (ascii ''gemini'') False True))"
  using dry_run_never_calls_ai
          [of "env_two_commits (Some (ascii ''Summary''))" "ascii ''v1''" "ascii ''v2''"
              ascii_lower ascii_upper True "ascii ''gemini''" False]
  by (simp add: env_two_commits_def)

text \<open>
  C2. In ai mode with a non-empty commit list, when the AI orchestrator gives no usable
  result (\<open>None\<close>, which is what an unknown provider, a missing key and every failure of the
  exchange give, or the empty text), the returned document is equal to the document of
  basic mode on the same inputs: the same header, classified body and statistics footer,
  and so nothing of the failure in it.
\<close>

theorem ai_failure_falls_back_to_basic:
  assumes "get_git_commits e from_ref to_ref \<noteq> []"
    and "ai_content_of e from_ref to_ref ai_provider = None
         \<or> ai_content_of e from_ref to_ref ai_provider = Some []"
  shows "fst (generate_changelog e lower upper from_ref to_ref True ai_provider verbose False)
       = fst (generate_changelog e lower upper from_ref to_ref False ai_provider verbose False)"
  using assms(2)
  unfolding generate_changelog_ai [OF assms(1)] generate_changelog_basic [OF assms(1)]
  by auto

theorem ai_failure_falls_back_to_basic_witness:
  "ai_content_of (env_two_commits None) (ascii ''v1'') (ascii ''v2'') (ascii ''gemini'') = None
   \<and> fst (generate_changelog (env_two_commits None) ascii_lower ascii_upper
            (ascii ''v1'') (ascii ''v2'') True (ascii ''gemini'') False False)
     = fst (generate_changelog (env_two_commits None) ascii_lower ascii_upper
            (ascii ''v1'') (ascii ''v2'') False (ascii ''gemini'') False False)"
  using ai_failure_falls_back_to_basic
          [of "env_two_commits None" "ascii ''v1''" "ascii ''v2''" "ascii ''gemini''"
              ascii_lower ascii_upper False]
  by (simp add: env_two_commits_def sample_env_ai_content)

text \<open>
  C3, as the code has it. In ai mode with a non-empty commit list and a non-empty result
  of the AI orchestrator, the body of the document is that result, followed, when the
  diff-statistics string is not empty, by the statistics footer (the number of all
  commits and of changed files) and the collapsible block; when the diff-statistics
  string is empty, the body is the result alone.
\<close>

theorem ai_footer_only_with_diff_stat:
  assumes "get_git_commits e from_ref to_ref \<noteq> []"
    and "ai_content_of e from_ref to_ref ai_provider = Some content" and "content \<noteq> []"
  shows "fst (generate_changelog e lower upper from_ref to_ref True ai_provider verbose False)
       = make_header from_ref to_ref (get_git_commits e from_ref to_ref) @ content
         @ (if diff_stat_of e from_ref to_ref \<noteq> [] then
              ai_statistics (length (get_git_commits e from_ref to_ref))
                (length (changed_files_of e from_ref to_ref))
              @ details_block (diff_stat_of e from_ref to_ref)
            else [])"
  using assms(2,3) unfolding generate_changelog_ai [OF assms(1)] by simp

lemma env_two_commits_data:
  "changed_files_of (env_two_commits answer) from_ref to_ref = [ascii ''app.py'']"
  "diff_stat_of (env_two_commits answer) from_ref to_ref = ascii '' app.py | 2 +-''"
  by (simp_all add: diff_stat_of_def changed_files_of_def env_two_commits_def sample_env_def
        ascii_def)

theorem ai_footer_only_with_diff_stat_witness:
  "fst (generate_changelog (env_two_commits (Some (ascii ''Summary''))) ascii_lower ascii_upper
          (ascii ''v1'') (ascii ''v2'') True (ascii ''gemini'') False False)
     = make_header (ascii ''v1'') (ascii ''v2'') [commit_merge, commit_css_readme]
       @ ascii ''Summary'' @ ai_statistics 2 1 @ details_block (ascii '' app.py | 2 +-'')"
proof -
  have ai: "ai_content_of (env_two_commits (Some (ascii ''Summary''))) (ascii ''v1'') (ascii ''v2'')
              (ascii ''gemini'') = Some (ascii ''Summary'')"
    by (simp add: env_two_commits_def sample_env_ai_content)
  have ne: "ascii ''Summary'' \<noteq> []" by (simp add: ascii_def)
  have st: "ascii '' app.py | 2 +-'' \<noteq> []" by (simp add: ascii_def)
  have cs: "get_git_commits (env_two_commits (Some (ascii ''Summary''))) (ascii ''v1'') (ascii ''v2'')
              = [commit_merge, commit_css_readme]"
    by (simp add: env_two_commits_def)
  show ?thesis
    using ai_footer_only_with_diff_stat
            [of "env_two_commits (Some (ascii ''Summary''))" "ascii ''v1''" "ascii ''v2''"
                "ascii ''gemini''" "ascii ''Summary''" ascii_lower ascii_upper False]
      ai ne st
    by (simp add: cs env_two_commits_data numeral_2_eq_2)
qed

text \<open>
  Where the only changed file is ignored, the diff statistics are empty; the AI service
  answers \<open>Summary\<close>, and the document is the header and \<open>Summary\<close>, with no footer.
\<close>

theorem ai_footer_missing_counterexample:
  "get_git_commits env_ignored_only (ascii ''v1'') (ascii ''v2'') = [commit_css_readme]
   \<and> ai_content_of env_ignored_only (ascii ''v1'') (ascii ''v2'') (ascii ''gemini'')
       = Some (ascii ''Summary'')
   \<and> diff_stat_of env_ignored_only (ascii ''v1'') (ascii ''v2'') = []
   \<and> fst (generate_changelog env_ignored_only ascii_lower ascii_upper
            (ascii ''v1'') (ascii ''v2'') True (ascii ''gemini'') False False)
       = make_header (ascii ''v1'') (ascii ''v2'') [commit_css_readme] @ ascii ''Summary''
   \<and> fst (generate_changelog env_ignored_only ascii_lower ascii_upper
            (ascii ''v1'') (ascii ''v2'') True (ascii ''gemini'') False False)
       \<noteq> make_header (ascii ''v1'') (ascii ''v2'') [commit_css_readme] @ ascii ''Summary''
           @ ai_statistics 1 0"
proof -
  have c: "get_git_commits env_ignored_only (ascii ''v1'') (ascii ''v2'') = [commit_css_readme]"
    by (simp add: env_ignored_only_def)
  then have ne: "get_git_commits env_ignored_only (ascii ''v1'') (ascii ''v2'') \<noteq> []" by simp
  have ai: "ai_content_of env_ignored_only (ascii ''v1'') (ascii ''v2'') (ascii ''gemini'')
              = Some (ascii ''Summary'')"
    by (simp add: env_ignored_only_def sample_env_ai_content)
  have ds: "diff_stat_of env_ignored_only (ascii ''v1'') (ascii ''v2'') = []"
    by (simp add: diff_stat_of_def changed_files_of_def env_ignored_only_def sample_env_def)
  have doc: "fst (generate_changelog env_ignored_only ascii_lower ascii_upper
            (ascii ''v1'') (ascii ''v2'') True (ascii ''gemini'') False False)
       = make_header (ascii ''v1'') (ascii ''v2'') [commit_css_readme] @ ascii ''Summary''"
    unfolding generate_changelog_ai [OF ne] ai ds c by (simp add: ascii_def)
  have "ai_statistics 1 0 \<noteq> []" by (simp add: ai_statistics_def ascii_def)
  with c ai ds doc show ?thesis by simp
qed

section \<open>The diff embedded in the prompt\<close>

text \<open>
  C5, as the code has it. For every diff text longer than 50000 characters,
  \<open>build_ai_prompt\<close> embeds the first 50000 characters of the diff and nothing more of it
  (a hard cutoff; the function has no error branch), and the fixed end of the template
  follows the cut directly: the prompt is the one built from the 50000-character prefix,
  with no truncation notice in it.
\<close>

theorem build_ai_prompt_hard_cutoff:
  assumes "length diff > DEFAULT_MAX_DIFF_CHARS"
  shows "build_ai_prompt from_ref to_ref commits diff diff_stat
           = prompt_head from_ref to_ref commits diff_stat @ take 50000 diff @ PROMPT_TAIL
     \<and> build_ai_prompt from_ref to_ref commits diff diff_stat
           = build_ai_prompt from_ref to_ref commits (take 50000 diff) diff_stat"
  using assms by (simp add: build_ai_prompt_def DEFAULT_MAX_DIFF_CHARS_def Let_def)

theorem build_ai_prompt_hard_cutoff_witness:
  "build_ai_prompt (ascii ''v1'') (ascii ''v2'') [commit_merge] (replicate 60000 43) []
     = prompt_head (ascii ''v1'') (ascii ''v2'') [commit_merge] [] @ replicate 50000 43 @ PROMPT_TAIL"
  using build_ai_prompt_hard_cutoff
          [of "replicate 60000 43" "ascii ''v1''" "ascii ''v2''" "[commit_merge]" "[]"]
  by (simp add: DEFAULT_MAX_DIFF_CHARS_def)

text \<open>
  A diff of 50001 characters gives the very prompt that its first 50000 characters give,
  which need no truncation: nothing in the prompt marks the cut.
\<close>

theorem build_ai_prompt_no_notice_counterexample:
  "length (replicate 50001 (97::nat)) > 50000
   \<and> build_ai_prompt (ascii ''v1'') (ascii ''v2'') [commit_css_readme] (replicate 50001 97) []
       = prompt_head (ascii ''v1'') (ascii ''v2'') [commit_css_readme] []
         @ replicate 50000 97 @ PROMPT_TAIL
   \<and> build_ai_prompt (ascii ''v1'') (ascii ''v2'') [commit_css_readme] (replicate 50001 97) []
       = build_ai_prompt (ascii ''v1'') (ascii ''v2'') [commit_css_readme] (replicate 50000 97) []"
  by (simp add: build_ai_prompt_def DEFAULT_MAX_DIFF_CHARS_def Let_def)

section \<open>Truncation for the webhook\<close>

lemma utf8_char_length:
  "utf8_char c = Some bs \<Longrightarrow> 1 \<le> length bs \<and> length bs \<le> 4"
  by (auto simp: utf8_char_def split: if_splits)

lemma encode_utf8_append:
  "encode_utf8 (xs @ ys) =
     (case encode_utf8 xs of None \<Rightarrow> None
      | Some a \<Rightarrow> (case encode_utf8 ys of None \<Rightarrow> None | Some b \<Rightarrow> Some (a @ b)))"
  by (induction xs) (auto split: option.splits)

lemma encode_utf8_length:
  "encode_utf8 s = Some bs \<Longrightarrow> length s \<le> length bs \<and> length bs \<le> 4 * length s"
proof (induction s arbitrary: bs)
  case Nil
  then show ?case by simp
next
  case (Cons c cs)
  then obtain a b where a: "utf8_char c = Some a" and b: "encode_utf8 cs = Some b"
    and bs: "bs = a @ b"
    by (auto split: option.splits)
  from Cons.IH [OF b] utf8_char_length [OF a] bs show ?case by simp
qed


lemma encode_utf8_replicate_ascii:
  "c < 128 \<Longrightarrow> encode_utf8 (replicate n c) = Some (replicate n c)"
  by (induction n) (auto simp: utf8_char_def)




lemma truncate_loop_step:
  "encode_utf8 s = Some bs \<Longrightarrow> int (length bs) > target_bytes \<Longrightarrow>
     truncate_loop target_bytes s
       = truncate_loop target_bytes (slice_to s (int (length s) - 100))"
  by (subst truncate_loop.simps) simp

lemma truncate_loop_stop:
  "encode_utf8 s = Some bs \<Longrightarrow> int (length bs) \<le> target_bytes \<Longrightarrow>
     truncate_loop target_bytes s = Some (Inr s)"
  by (subst truncate_loop.simps) simp





lemma rfind_replicate: "x \<noteq> c \<Longrightarrow> rfind (replicate n x) c = - 1"
  by (induction n) (auto simp: Let_def)

lemma cut_at_newline_take:
  "cut_at_newline t =
     (if rfind t 10 > int (length t) div 2 then take (nat (rfind t 10)) t else t)"
  by (simp add: cut_at_newline_def slice_to_def Let_def)




lemma encode_utf8_line_document:
  "encode_utf8 (replicate n 97 @ [10] @ replicate m 97)
     = Some (replicate n 97 @ [10] @ replicate m 97)"
  by (simp add: encode_utf8_append encode_utf8_replicate_ascii utf8_char_def)

lemma truncate_loop_step_to:
  "encode_utf8 s = Some bs \<Longrightarrow> int (length bs) > target_bytes \<Longrightarrow>
     slice_to s (int (length s) - 100) = s' \<Longrightarrow>
     truncate_loop target_bytes s = truncate_loop target_bytes s'"
  using truncate_loop_step by simp




text \<open>
  A newline in the part that the loop has cut off is not a preceding boundary. In the
  document of 5000 ASCII characters whose only newline is at index 3950, the loop leaves the
  first 3900 characters, which hold no newline, and these are the prefix of the payload.
\<close>

lemma truncate_loop_late_newline_document:
  "truncate_loop 3996 late_newline_document = Some (Inr (replicate 3900 97))"
proof -
  have "truncate_loop 3996 late_newline_document
      = truncate_loop 3996 (replicate 3950 97 @ [10] @ replicate 949 97)"
    unfolding late_newline_document_def
    by (rule truncate_loop_step_to [OF encode_utf8_line_document]) (simp_all add: slice_to_def)
  also have "\<dots> = truncate_loop 3996 (replicate 3950 97 @ [10] @ replicate 849 97)"
    by (rule truncate_loop_step_to [OF encode_utf8_line_document]) (simp_all add: slice_to_def)
  also have "\<dots> = truncate_loop 3996 (replicate 3950 97 @ [10] @ replicate 749 97)"
    by (rule truncate_loop_step_to [OF encode_utf8_line_document]) (simp_all add: slice_to_def)
  also have "\<dots> = truncate_loop 3996 (replicate 3950 97 @ [10] @ replicate 649 97)"
    by (rule truncate_loop_step_to [OF encode_utf8_line_document]) (simp_all add: slice_to_def)
  also have "\<dots> = truncate_loop 3996 (replicate 3950 97 @ [10] @ replicate 549 97)"
    by (rule truncate_loop_step_to [OF encode_utf8_line_document]) (simp_all add: slice_to_def)
  also have "\<dots> = truncate_loop 3996 (replicate 3950 97 @ [10] @ replicate 449 97)"
    by (rule truncate_loop_step_to [OF encode_utf8_line_document]) (simp_all add: slice_to_def)
  also have "\<dots> = truncate_loop 3996 (replicate 3950 97 @ [10] @ replicate 349 97)"
    by (rule truncate_loop_step_to [OF encode_utf8_line_document]) (simp_all add: slice_to_def)
  also have "\<dots> = truncate_loop 3996 (replicate 3950 97 @ [10] @ replicate 249 97)"
    by (rule truncate_loop_step_to [OF encode_utf8_line_document]) (simp_all add: slice_to_def)
  also have "\<dots> = truncate_loop 3996 (replicate 3950 97 @ [10] @ replicate 149 97)"
    by (rule truncate_loop_step_to [OF encode_utf8_line_document]) (simp_all add: slice_to_def)
  also have "\<dots> = truncate_loop 3996 (replicate 3950 97 @ [10] @ replicate 49 97)"
    by (rule truncate_loop_step_to [OF encode_utf8_line_document]) (simp_all add: slice_to_def)
  also have "\<dots> = truncate_loop 3996 (replicate 3900 97)"
    by (rule truncate_loop_step_to [OF encode_utf8_line_document]) (simp_all add: slice_to_def)
  also have "\<dots> = Some (Inr (replicate 3900 97))"
    by (rule truncate_loop_stop [OF encode_utf8_replicate_ascii]) simp_all
  finally show ?thesis .
qed

lemma truncate_late_newline_document:
  "truncate_content_for_wecom late_newline_document 4096
     = Some (Inr (replicate 3900 97 @ TRUNCATION_NOTICE))"
proof -
  have enc: "encode_utf8 late_newline_document = Some late_newline_document"
    unfolding late_newline_document_def by (rule encode_utf8_line_document)
  have len: "length late_newline_document = 5000" by (simp add: late_newline_document_def)
  show ?thesis
    using enc len truncate_loop_late_newline_document
    by (simp add: truncate_content_for_wecom_def cut_at_newline_take rfind_replicate)
qed

end
